theory Spec2Isabelle
  imports Main
begin

section \<open>Contribution data (src/app/lib/github.ts, lines 18-50)\<close>

text \<open>
  The interfaces of the module, field for field. A TypeScript \<^verbatim>\<open>number\<close> that holds a
  count is an \<^typ>\<open>int\<close>; the string union of contribution levels is a datatype.
\<close>

datatype ContributionLevel =
  NONE | FIRST_QUARTILE | SECOND_QUARTILE | THIRD_QUARTILE | FOURTH_QUARTILE

record ContributionDay =
  date :: string
  contributionCount :: int
  contributionLevel :: ContributionLevel

record ContributionWeek =
  contributionDays :: "ContributionDay list"

record ContributionCalendar =
  totalContributions :: int
  weeks :: "ContributionWeek list"

text \<open>
  \<^verbatim>\<open>GitHubContributionResponse\<close>: the parsed body of the GraphQL answer. The code reads it
  as \<^verbatim>\<open>result.data?.user\<close>, so \<open>data\<close> may be missing and \<open>user\<close> may be null; below
  \<open>user\<close> the declared type is taken as it stands.
\<close>

record ContributionsCollection =
  contributionCalendar :: ContributionCalendar

record User =
  contributionsCollection :: ContributionsCollection

record Data =
  user :: "User option"

record GitHubContributionResponse =
  data :: "Data option"

section \<open>The window selector: \<^verbatim>\<open>getRecentContributions\<close> (lines 180-186)\<close>

text \<open>
  \<^verbatim>\<open>Array.prototype.slice(start)\<close> with the end left out, for an integral \<open>start\<close>: a
  negative start counts from the end and is clamped at 0, any other start is clamped at
  the length. JavaScript's \<^verbatim>\<open>-0\<close> is the integer 0 here, as \<^verbatim>\<open>ToIntegerOrInfinity\<close>
  makes it.
\<close>

definition array_slice :: "'a list \<Rightarrow> int \<Rightarrow> 'a list" where
  "array_slice xs start =
     (let len = int (length xs);
          k = (if start < 0 then max (len + start) 0 else min start len)
      in drop (nat k) xs)"

text \<open>
  \<^verbatim>\<open>calendar.weeks.flatMap(week => week.contributionDays)\<close>.
\<close>

definition flatMap_contributionDays :: "ContributionWeek list \<Rightarrow> ContributionDay list" where
  "flatMap_contributionDays ws = concat (map contributionDays ws)"

text \<open>
  The second parameter is optional (\<^verbatim>\<open>days: number = 365\<close>): \<open>None\<close> is a call that
  leaves it out.
\<close>

definition getRecentContributions ::
  "ContributionCalendar \<Rightarrow> int option \<Rightarrow> ContributionDay list" where
  "getRecentContributions calendar days_arg =
     (let days = (case days_arg of None \<Rightarrow> 365 | Some d \<Rightarrow> d);
          allDays = flatMap_contributionDays (weeks calendar)
      in array_slice allDays (- days))"

section \<open>The fetcher: \<^verbatim>\<open>fetchGitHubContributions\<close> (lines 66-129)\<close>

text \<open>
  What the function reads and writes outside its arguments: the two environment
  variables, the transport behind \<^verbatim>\<open>fetch\<close>, and the console. The transport is any
  function from the request to what the call does: it rejects, or it resolves to a
  response whose \<^verbatim>\<open>json()\<close> rejects, yields \<^verbatim>\<open>null\<close>, or yields a body of the declared
  type. \<open>requests\<close> records every call made on the transport, oldest first. The GraphQL
  query text is the same constant in every request and is left out of the record.
\<close>

record process_env =
  GITHUB_TOKEN_PERSONAL :: "string option"
  GITHUB_TOKEN :: "string option"

record request =
  url :: string
  http_method :: string
  authorization :: string
  content_type :: string
  variables_username :: string
  next_revalidate :: nat

datatype json_outcome = JsonRejects | JsonNull | JsonValue GitHubContributionResponse

record response =
  ok :: bool
  status :: nat
  statusText :: string
  json :: json_outcome

datatype fetch_outcome = FetchRejects | Resolves response

text \<open>
  The values that can be thrown: a rejected \<^verbatim>\<open>fetch\<close>, the \<^verbatim>\<open>Error\<close> the code throws
  itself on a response that is not ok (with the status and status text of its message),
  a rejected \<^verbatim>\<open>json()\<close>, and a \<^verbatim>\<open>TypeError\<close> from reading a property of \<^verbatim>\<open>null\<close> or
  \<^verbatim>\<open>undefined\<close>.
\<close>

datatype fault = NetworkFault | GitHubApiError nat string | ParseFault | TypeError

datatype log_entry = ConsoleWarn string | ConsoleError string fault

record world =
  env :: process_env
  remote :: "request \<Rightarrow> fetch_outcome"
  requests :: "request list"
  console :: "log_entry list"

text \<open>
  JavaScript's \<^verbatim>\<open>||\<close> on values that are a string or \<^verbatim>\<open>undefined\<close>: \<^verbatim>\<open>undefined\<close> and the
  empty string are falsy, every other string is truthy.
\<close>

definition js_truthy :: "string option \<Rightarrow> bool" where
  "js_truthy v = (case v of None \<Rightarrow> False | Some s \<Rightarrow> s \<noteq> [])"

definition js_or :: "string option \<Rightarrow> string option \<Rightarrow> string option" where
  "js_or a b = (if js_truthy a then a else b)"

definition graphql_request :: "string \<Rightarrow> string \<Rightarrow> request" where
  "graphql_request uname githubToken =
     \<lparr>url = ''https://api.github.com/graphql'', http_method = ''POST'',
      authorization = ''Bearer '' @ githubToken, content_type = ''application/json'',
      variables_username = uname, next_revalidate = 3600\<rparr>"

text \<open>
  The body of the \<^verbatim>\<open>try\<close> block (lines 99-124). \<open>Inl\<close> is a throw out of the block,
  \<open>Inr\<close> a return from the function.
\<close>

definition try_block ::
  "string \<Rightarrow> string \<Rightarrow> world \<Rightarrow> (fault + ContributionCalendar option) \<times> world" where
  "try_block uname githubToken w =
     (let req = graphql_request uname githubToken;
          w1 = w\<lparr>requests := requests w @ [req]\<rparr>
      in case remote w req of
           FetchRejects \<Rightarrow> (Inl NetworkFault, w1)
         | Resolves response \<Rightarrow>
             if \<not> ok response
             then (Inl (GitHubApiError (status response) (statusText response)), w1)
             else (case json response of
                     JsonRejects \<Rightarrow> (Inl ParseFault, w1)
                   | JsonNull \<Rightarrow> (Inl TypeError, w1)
                   | JsonValue result \<Rightarrow>
                       (case (case data result of None \<Rightarrow> None | Some d \<Rightarrow> user d) of
                          None \<Rightarrow>
                            (Inr None,
                             w1\<lparr>console := console w1 @
                               [ConsoleWarn (''GitHub user '' @ [CHR 0x22] @ uname @
                                  [CHR 0x22] @ '' not found'')]\<rparr>)
                        | Some u \<Rightarrow>
                            (Inr (Some (contributionCalendar (contributionsCollection u))),
                             w1))))"

definition fetchGitHubContributions ::
  "string \<Rightarrow> string option \<Rightarrow> world \<Rightarrow> (fault + ContributionCalendar option) \<times> world" where
  "fetchGitHubContributions uname token_arg w =
     (let githubToken =
            js_or (js_or token_arg (GITHUB_TOKEN_PERSONAL (env w))) (GITHUB_TOKEN (env w))
      in if \<not> js_truthy githubToken
         then (Inr None,
               w\<lparr>console := console w @
                 [ConsoleWarn
                    ''No GitHub token configured. GitHub contribution data unavailable.'']\<rparr>)
         else (case try_block uname (case githubToken of Some t \<Rightarrow> t | None \<Rightarrow> []) w of
                 (Inl error, w') \<Rightarrow>
                   (Inr None,
                    w'\<lparr>console := console w' @
                      [ConsoleError (''Failed to fetch contributions for '' @ uname @ '':'')
                         error]\<rparr>)
               | (Inr calendar, w') \<Rightarrow> (Inr calendar, w')))"

section \<open>The aggregator: \<^verbatim>\<open>aggregateContributions\<close> (lines 149-171)\<close>

record Account =
  username :: string
  token :: "string option"

text \<open>
  \<^verbatim>\<open>byAccount\<close> is a plain object used as a \<^verbatim>\<open>Record<string, number>\<close>: its properties
  in the order of their creation. An assignment to a key that exists replaces the value
  in place, one to a new key appends.
\<close>

fun set_property :: "string \<Rightarrow> 'v \<Rightarrow> (string \<times> 'v) list \<Rightarrow> (string \<times> 'v) list" where
  "set_property k v [] = [(k, v)]"
| "set_property k v ((k', v') # props) =
     (if k = k' then (k, v) # props else (k', v') # set_property k v props)"

text \<open>
  The assignment \<^verbatim>\<open>byAccount[username] = n\<close> of a number, on the object the literal \<^verbatim>\<open>{}\<close>
  created. Its prototype is \<^verbatim>\<open>Object.prototype\<close>, whose one accessor property is
  \<^verbatim>\<open>__proto__\<close>: an assignment to that key runs the inherited setter, which ignores a
  value that is neither an object nor \<^verbatim>\<open>null\<close>, and no own property comes of it. Every
  other key names nothing or a writable data property of the prototype, and the
  assignment creates or updates an own property.
\<close>

definition assign_property ::
  "string \<Rightarrow> 'v \<Rightarrow> (string \<times> 'v) list \<Rightarrow> (string \<times> 'v) list" where
  "assign_property k v props = (if k = ''__proto__'' then props else set_property k v props)"

text \<open>
  The order in which \<^verbatim>\<open>Object.keys\<close> and \<^verbatim>\<open>Object.entries\<close> (which the component calls on
  \<^verbatim>\<open>byAccount\<close>) list the keys of an ordinary object: first the keys that are array
  indices (the canonical decimal form of an integer from 0 to \<open>2^32 - 2\<close>) in ascending
  numeric order, then every other key in the order of creation.
\<close>

definition digit_value :: "char \<Rightarrow> nat" where
  "digit_value c = of_char c - 48"

definition is_digit :: "char \<Rightarrow> bool" where
  "is_digit c = (48 \<le> (of_char c :: nat) \<and> (of_char c :: nat) \<le> 57)"

definition decimal_value :: "string \<Rightarrow> nat" where
  "decimal_value s = foldl (\<lambda>n c. 10 * n + digit_value c) 0 s"

definition is_array_index :: "string \<Rightarrow> bool" where
  "is_array_index s =
     (s \<noteq> [] \<and> list_all is_digit s \<and> (s = ''0'' \<or> hd s \<noteq> CHR ''0'') \<and>
      decimal_value s < 4294967295)"

definition own_keys :: "(string \<times> 'v) list \<Rightarrow> string list" where
  "own_keys props =
     (let ks = map fst props
      in sort_key decimal_value (filter is_array_index ks) @
         filter (\<lambda>k. \<not> is_array_index k) ks)"

text \<open>
  \<^verbatim>\<open>totalContributions += count\<close> adds two IEEE 754 doubles. On numbers that are integers
  the sum is the exact sum rounded to the nearest integer a double holds: exact up to
  \<open>2^53\<close> in magnitude, beyond that a multiple of the unit in the last of the 53 bits
  of the significand, a tie going to the even significand. A rounded sum of \<open>2^1024\<close>
  or more is \<^verbatim>\<open>Infinity\<close> in the code, for which \<^typ>\<open>int\<close> has no value: sums of that
  size are outside this model.
\<close>

fun bit_length :: "nat \<Rightarrow> nat" where
  "bit_length n = (if n = 0 then 0 else Suc (bit_length (n div 2)))"

declare bit_length.simps [simp del]

definition double_round :: "int \<Rightarrow> int" where
  "double_round x =
     (if \<bar>x\<bar> \<le> 2 ^ 53 then x
      else (let m = nat \<bar>x\<bar>;
                ulp = 2 ^ (bit_length m - 53);
                q = m div ulp;
                r = m mod ulp;
                q' = (if 2 * r < ulp then q
                      else if ulp < 2 * r then q + 1
                      else if even q then q else q + 1)
            in sgn x * int (q' * ulp)))"

definition number_add :: "int \<Rightarrow> int \<Rightarrow> int" where
  "number_add a b = double_round (a + b)"

record AggregateResult =
  totalContributions_agg :: int
  byAccount :: "(string \<times> int) list"

text \<open>
  An element of the array \<^verbatim>\<open>Promise.allSettled\<close> resolves to.
\<close>

datatype 'a settled = Fulfilled 'a | Rejected fault

fun settle :: "fault + 'a \<Rightarrow> 'a settled" where
  "settle (Inl e) = Rejected e"
| "settle (Inr v) = Fulfilled v"

text \<open>
  \<^verbatim>\<open>accounts.map(...)\<close> calls the fetcher account by account; each call runs up to its
  \<^verbatim>\<open>await fetch(...)\<close> before the next one starts, so the requests are issued in the order
  of the accounts. The transport answers a request by its content alone, so the order in
  which the answers arrive does not change any result; the console lines are listed here
  in the order of the accounts, the one thing the order of arrival could permute.
\<close>

fun allSettled_fetch ::
  "Account list \<Rightarrow> world \<Rightarrow> ContributionCalendar option settled list \<times> world" where
  "allSettled_fetch [] w = ([], w)"
| "allSettled_fetch (a # accounts) w =
     (case fetchGitHubContributions (username a) (token a) w of
        (r, w1) \<Rightarrow>
          (case allSettled_fetch accounts w1 of
             (rs, w2) \<Rightarrow> (settle r # rs, w2)))"

text \<open>
  The callback of \<^verbatim>\<open>results.forEach\<close> (lines 159-168), on the running total and mapping.
  \<^verbatim>\<open>accounts[index]\<close> beyond the end of the array is \<^verbatim>\<open>undefined\<close>, and reading its
  \<^verbatim>\<open>username\<close> throws.
\<close>

definition forEach_callback ::
  "Account list \<Rightarrow> ContributionCalendar option settled \<Rightarrow> nat \<Rightarrow> AggregateResult \<Rightarrow>
   fault + AggregateResult" where
  "forEach_callback accounts result index acc =
     (if index < length accounts
      then (let uname = username (accounts ! index)
            in case result of
                 Fulfilled (Some v) \<Rightarrow>
                   (let count = totalContributions v
                    in Inr \<lparr>totalContributions_agg =
                              number_add (totalContributions_agg acc) count,
                            byAccount = assign_property uname count (byAccount acc)\<rparr>)
               | _ \<Rightarrow>
                   Inr \<lparr>totalContributions_agg = totalContributions_agg acc,
                        byAccount = assign_property uname 0 (byAccount acc)\<rparr>)
      else Inl TypeError)"

fun forEach ::
  "Account list \<Rightarrow> ContributionCalendar option settled list \<Rightarrow> nat \<Rightarrow> AggregateResult \<Rightarrow>
   fault + AggregateResult" where
  "forEach accounts [] index acc = Inr acc"
| "forEach accounts (result # results) index acc =
     (case forEach_callback accounts result index acc of
        Inl e \<Rightarrow> Inl e
      | Inr acc' \<Rightarrow> forEach accounts results (Suc index) acc')"

definition aggregateContributions ::
  "Account list \<Rightarrow> world \<Rightarrow> (fault + AggregateResult) \<times> world" where
  "aggregateContributions accounts w =
     (case allSettled_fetch accounts w of
        (results, w') \<Rightarrow>
          (forEach accounts results 0 \<lparr>totalContributions_agg = 0, byAccount = []\<rparr>, w'))"

section \<open>The window selector on a heap of objects\<close>

text \<open>
  To state that \<^verbatim>\<open>getRecentContributions\<close> leaves its argument as it was, the calendar
  has to be an object that a call could change. Here the calendar, its arrays, its weeks
  and its days are objects on a heap, addressed by references; an array holds references
  to its elements, as a JavaScript array of objects does. A reference is an index into
  the heap and a new object is appended.
\<close>

type_synonym ref = nat

datatype js_object =
    DayObject ContributionDay
  | WeekObject ref
  | CalendarObject int ref
  | ArrayObject "ref list"

type_synonym heap = "js_object list"

definition heap_lookup :: "heap \<Rightarrow> ref \<Rightarrow> js_object option" where
  "heap_lookup h r = (if r < length h then Some (h ! r) else None)"

definition heap_alloc :: "heap \<Rightarrow> js_object \<Rightarrow> ref \<times> heap" where
  "heap_alloc h obj = (length h, h @ [obj])"

text \<open>
  The callback \<^verbatim>\<open>week => week.contributionDays\<close> followed by the read of the array it
  returns, and \<^verbatim>\<open>flatMap\<close> over the weeks: the elements of the new array are the
  references held by the weeks' arrays. \<open>None\<close> stands for a heap that does not hold a
  \<^verbatim>\<open>ContributionCalendar\<close> at the reference, which the parameter's type rules out.
\<close>

definition week_contributionDays :: "heap \<Rightarrow> ref \<Rightarrow> ref list option" where
  "week_contributionDays h week =
     (case heap_lookup h week of
        Some (WeekObject days_ref) \<Rightarrow>
          (case heap_lookup h days_ref of Some (ArrayObject ds) \<Rightarrow> Some ds | _ \<Rightarrow> None)
      | _ \<Rightarrow> None)"

fun flatMap_heap :: "heap \<Rightarrow> ref list \<Rightarrow> ref list option" where
  "flatMap_heap h [] = Some []"
| "flatMap_heap h (week # later) =
     (case week_contributionDays h week of
        None \<Rightarrow> None
      | Some ds \<Rightarrow>
          (case flatMap_heap h later of None \<Rightarrow> None | Some rest \<Rightarrow> Some (ds @ rest)))"

definition getRecentContributions_heap ::
  "heap \<Rightarrow> ref \<Rightarrow> int option \<Rightarrow> (ref \<times> heap) option" where
  "getRecentContributions_heap h calendar days_arg =
     (let days = (case days_arg of None \<Rightarrow> 365 | Some d \<Rightarrow> d)
      in case heap_lookup h calendar of
           Some (CalendarObject total_count weeks_ref) \<Rightarrow>
             (case heap_lookup h weeks_ref of
                Some (ArrayObject week_refs) \<Rightarrow>
                  (case flatMap_heap h week_refs of
                     None \<Rightarrow> None
                   | Some elems \<Rightarrow>
                       (case heap_alloc h (ArrayObject elems) of
                          (allDays, h1) \<Rightarrow>
                            (case heap_lookup h1 allDays of
                               Some (ArrayObject all_elems) \<Rightarrow>
                                 Some (heap_alloc h1
                                         (ArrayObject (array_slice all_elems (- days))))
                             | _ \<Rightarrow> None)))
              | _ \<Rightarrow> None)
         | _ \<Rightarrow> None)"

text \<open>
  Reading a value of the data model back out of the heap: \<open>Some\<close> exactly when the
  reference holds a well-formed value of the type.
\<close>

definition read_day :: "heap \<Rightarrow> ref \<Rightarrow> ContributionDay option" where
  "read_day h r = (case heap_lookup h r of Some (DayObject d) \<Rightarrow> Some d | _ \<Rightarrow> None)"

definition read_days :: "heap \<Rightarrow> ref \<Rightarrow> ContributionDay list option" where
  "read_days h r =
     (case heap_lookup h r of
        Some (ArrayObject ds) \<Rightarrow> those (map (read_day h) ds)
      | _ \<Rightarrow> None)"

definition read_week :: "heap \<Rightarrow> ref \<Rightarrow> ContributionWeek option" where
  "read_week h r =
     (case heap_lookup h r of
        Some (WeekObject days_ref) \<Rightarrow>
          map_option (\<lambda>ds. \<lparr>contributionDays = ds\<rparr>) (read_days h days_ref)
      | _ \<Rightarrow> None)"

definition read_calendar :: "heap \<Rightarrow> ref \<Rightarrow> ContributionCalendar option" where
  "read_calendar h r =
     (case heap_lookup h r of
        Some (CalendarObject total_count weeks_ref) \<Rightarrow>
          (case heap_lookup h weeks_ref of
             Some (ArrayObject week_refs) \<Rightarrow>
               map_option (\<lambda>ws. \<lparr>totalContributions = total_count, weeks = ws\<rparr>)
                 (those (map (read_week h) week_refs))
           | _ \<Rightarrow> None)
      | _ \<Rightarrow> None)"

text \<open>
  A heap holding a calendar of one week of two days at reference 5.
\<close>

definition two_day_heap :: heap where
  "two_day_heap =
     [DayObject \<lparr>date = ''2024-01-01'', contributionCount = 3,
                 contributionLevel = FIRST_QUARTILE\<rparr>,
      DayObject \<lparr>date = ''2024-01-02'', contributionCount = 0, contributionLevel = NONE\<rparr>,
      ArrayObject [0, 1],
      WeekObject 2,
      ArrayObject [3],
      CalendarObject 3 4]"

text \<open>Concrete calendars used to run the code.\<close>

definition some_day :: ContributionDay where
  "some_day = \<lparr>date = ''2024-01-01'', contributionCount = 3,
                contributionLevel = FIRST_QUARTILE\<rparr>"

definition other_day :: ContributionDay where
  "other_day = \<lparr>date = ''2024-01-02'', contributionCount = 0, contributionLevel = NONE\<rparr>"

definition two_day_calendar :: ContributionCalendar where
  "two_day_calendar =
     \<lparr>totalContributions = 3, weeks = [\<lparr>contributionDays = [some_day, other_day]\<rparr>]\<rparr>"

definition one_day_calendar :: ContributionCalendar where
  "one_day_calendar = \<lparr>totalContributions = 3, weeks = [\<lparr>contributionDays = [some_day]\<rparr>]\<rparr>"

definition quarter_calendar :: ContributionCalendar where
  "quarter_calendar =
     \<lparr>totalContributions = 273,
      weeks = replicate 13 \<lparr>contributionDays = replicate 7 some_day\<rparr>\<rparr>"

text \<open>
  What one settled invocation adds to the figures, in the words of the specification: the
  calendar's total when the fetcher returned a calendar, 0 when it returned absence or
  the invocation faulted.
\<close>

fun contribution :: "ContributionCalendar option settled \<Rightarrow> int" where
  "contribution (Fulfilled (Some calendar)) = totalContributions calendar"
| "contribution (Fulfilled None) = 0"
| "contribution (Rejected e) = 0"

text \<open>
  A remote source that knows one credential: with the bearer token \<^verbatim>\<open>good\<close> it answers
  with a calendar of 120 contributions, with any other it answers 401. No environment
  variable is set.
\<close>

definition calendar_120 :: ContributionCalendar where
  "calendar_120 = \<lparr>totalContributions = 120, weeks = []\<rparr>"

definition demo_remote :: "request \<Rightarrow> fetch_outcome" where
  "demo_remote req =
     (if authorization req = ''Bearer good''
      then Resolves \<lparr>ok = True, status = 200, statusText = ''OK'',
             json = JsonValue \<lparr>data = Some \<lparr>user = Some
               \<lparr>contributionsCollection = \<lparr>contributionCalendar = calendar_120\<rparr>\<rparr>\<rparr>\<rparr>\<rparr>
      else Resolves \<lparr>ok = False, status = 401, statusText = ''Unauthorized'',
             json = JsonRejects\<rparr>)"

definition demo_world :: world where
  "demo_world =
     \<lparr>env = \<lparr>GITHUB_TOKEN_PERSONAL = None, GITHUB_TOKEN = None\<rparr>,
      remote = demo_remote, requests = [], console = []\<rparr>"

text \<open>Accounts and environments used to run the fetcher and the aggregator.\<close>

definition octocat_good :: Account where
  "octocat_good = \<lparr>username = ''octocat'', token = Some ''good''\<rparr>"

definition octocat_bad :: Account where
  "octocat_bad = \<lparr>username = ''octocat'', token = Some ''bad''\<rparr>"

definition hubot_no_token :: Account where
  "hubot_no_token = \<lparr>username = ''hubot'', token = None\<rparr>"

definition numeric_good :: Account where
  "numeric_good = \<lparr>username = ''42'', token = Some ''good''\<rparr>"

definition numeric_no_token :: Account where
  "numeric_no_token = \<lparr>username = ''42'', token = None\<rparr>"

definition proto_good :: Account where
  "proto_good = \<lparr>username = ''__proto__'', token = Some ''good''\<rparr>"

definition proto_no_token :: Account where
  "proto_no_token = \<lparr>username = ''__proto__'', token = None\<rparr>"

definition calendar_2_53 :: ContributionCalendar where
  "calendar_2_53 = \<lparr>totalContributions = 9007199254740992, weeks = []\<rparr>"

definition calendar_1 :: ContributionCalendar where
  "calendar_1 = \<lparr>totalContributions = 1, weeks = []\<rparr>"

definition hubot_good :: Account where
  "hubot_good = \<lparr>username = ''hubot'', token = Some ''good''\<rparr>"

text \<open>
  A remote source that answers every request with a calendar: one of \<open>2^53\<close>
  contributions for \<^verbatim>\<open>octocat\<close>, one of a single contribution for anyone else.
\<close>

definition big_remote :: "request \<Rightarrow> fetch_outcome" where
  "big_remote req =
     Resolves \<lparr>ok = True, status = 200, statusText = ''OK'',
       json = JsonValue \<lparr>data = Some \<lparr>user = Some
         \<lparr>contributionsCollection = \<lparr>contributionCalendar =
            (if variables_username req = ''octocat'' then calendar_2_53 else calendar_1)\<rparr>\<rparr>\<rparr>\<rparr>\<rparr>"

definition big_world :: world where
  "big_world =
     \<lparr>env = \<lparr>GITHUB_TOKEN_PERSONAL = None, GITHUB_TOKEN = None\<rparr>,
      remote = big_remote, requests = [], console = []\<rparr>"

definition world_with_env :: "string option \<Rightarrow> string option \<Rightarrow> world" where
  "world_with_env personal generic =
     \<lparr>env = \<lparr>GITHUB_TOKEN_PERSONAL = personal, GITHUB_TOKEN = generic\<rparr>,
      remote = demo_remote, requests = [], console = []\<rparr>"

section \<open>Properties of the window selector\<close>

lemma array_slice_negative:
  "0 < n \<Longrightarrow> array_slice xs (- n) = drop (length xs - nat n) xs"
  by (simp add: array_slice_def Let_def max_def nat_diff_distrib' nat_add_distrib)

lemma array_slice_zero: "array_slice xs 0 = xs"
  by (simp add: array_slice_def)

lemma getRecentContributions_positive:
  "0 < n \<Longrightarrow>
   getRecentContributions calendar (Some n) =
     drop (length (flatMap_contributionDays (weeks calendar)) - nat n)
       (flatMap_contributionDays (weeks calendar))"
  by (simp add: getRecentContributions_def Let_def array_slice_negative)

text \<open>
  For a day count of at least 1 the window is what its documentation says: the last
  \<open>min N total\<close> entries of the flattened calendar, and the whole of it when the
  calendar is shorter than \<open>N\<close>.
\<close>

lemma getRecentContributions_positive_length:
  "0 < n \<Longrightarrow>
   length (getRecentContributions calendar (Some n)) =
     min (nat n) (length (flatMap_contributionDays (weeks calendar)))"
  by (simp add: getRecentContributions_positive)

lemma getRecentContributions_positive_suffix:
  "0 < n \<Longrightarrow>
   \<exists>older. flatMap_contributionDays (weeks calendar) =
     older @ getRecentContributions calendar (Some n)"
  by (metis append_take_drop_id getRecentContributions_positive)

lemma getRecentContributions_short_calendar:
  "0 < n \<Longrightarrow> length (flatMap_contributionDays (weeks calendar)) \<le> nat n \<Longrightarrow>
   getRecentContributions calendar (Some n) = flatMap_contributionDays (weeks calendar)"
  by (simp add: getRecentContributions_positive)

lemma getRecentContributions_zero_all:
  "getRecentContributions calendar (Some 0) = flatMap_contributionDays (weeks calendar)"
  by (simp add: getRecentContributions_def array_slice_zero)

lemma getRecentContributions_default:
  "getRecentContributions calendar None = getRecentContributions calendar (Some 365)"
  by (simp add: getRecentContributions_def)

lemma length_concat_replicate: "length (concat (replicate n xs)) = n * length xs"
  by (induction n) simp_all

lemma quarter_calendar_days:
  "length (flatMap_contributionDays (weeks quarter_calendar)) = 91"
  by (simp add: quarter_calendar_def flatMap_contributionDays_def length_concat_replicate)

text \<open>
  C2. Claimed: for every calendar and every day count \<open>N\<close> the window has exactly
  \<open>min N total\<close> entries. Run at \<open>N = 0\<close> on a calendar of two days, the code returns
  both days, where \<open>min 0 2 = 0\<close>: \<^verbatim>\<open>slice(-0)\<close> is \<^verbatim>\<open>slice(0)\<close>, the whole array.
\<close>

theorem getRecentContributions_zero_days_length:
  "length (getRecentContributions two_day_calendar (Some 0)) = 2 \<and>
   min (nat 0) (length (flatMap_contributionDays (weeks two_day_calendar))) = 0"
  by (simp add: getRecentContributions_zero_all two_day_calendar_def
      flatMap_contributionDays_def)

text \<open>
  C3. Claimed: with day count 0 the window is empty. On a calendar of one day the code
  returns that day.
\<close>

theorem getRecentContributions_zero_returns_all:
  "getRecentContributions one_day_calendar (Some 0) = [some_day] \<and>
   getRecentContributions one_day_calendar (Some 0) \<noteq> []"
  by (simp add: getRecentContributions_zero_all one_day_calendar_def
      flatMap_contributionDays_def)

text \<open>
  C8. Claimed: a call without a day count is a call with day count 90. The parameter's
  default in the code is 365: on a calendar of 13 weeks (91 days) the call without a day
  count returns 91 days, the call with 90 returns 90.
\<close>

theorem getRecentContributions_default_is_365:
  "length (getRecentContributions quarter_calendar None) = 91 \<and>
   length (getRecentContributions quarter_calendar (Some 90)) = 90 \<and>
   getRecentContributions quarter_calendar None \<noteq>
     getRecentContributions quarter_calendar (Some 90)"
proof -
  have a: "length (getRecentContributions quarter_calendar None) = 91"
    by (simp add: getRecentContributions_default getRecentContributions_positive_length
        quarter_calendar_days)
  have b: "length (getRecentContributions quarter_calendar (Some 90)) = 90"
    by (simp add: getRecentContributions_positive_length quarter_calendar_days)
  from a b show ?thesis by auto
qed

section \<open>Properties of the window selector on the heap\<close>

lemma those_eq_Some: "those xs = Some ys \<longleftrightarrow> xs = map Some ys"
proof (induction xs arbitrary: ys)
  case Nil
  then show ?case by auto
next
  case (Cons x xs)
  then show ?case by (cases x) (auto split: option.splits)
qed

lemma heap_lookup_append:
  "heap_lookup h r = Some obj \<Longrightarrow> heap_lookup (h @ ext) r = Some obj"
  by (auto simp: heap_lookup_def nth_append split: if_splits)

lemma read_day_append: "read_day h r = Some d \<Longrightarrow> read_day (h @ ext) r = Some d"
  by (auto simp: read_day_def split: option.splits js_object.splits dest: heap_lookup_append[where ext=ext])

lemma map_read_day_append:
  "map (read_day h) rs = map Some ds \<Longrightarrow> map (read_day (h @ ext)) rs = map Some ds"
proof (induction rs arbitrary: ds)
  case Nil
  then show ?case by simp
next
  case (Cons r rs)
  then show ?case by (cases ds) (auto simp: read_day_append)
qed

lemma read_days_append: "read_days h r = Some ds \<Longrightarrow> read_days (h @ ext) r = Some ds"
  by (auto simp: read_days_def those_eq_Some map_read_day_append
      split: option.splits js_object.splits dest: heap_lookup_append[where ext=ext])

lemma read_week_append: "read_week h r = Some wk \<Longrightarrow> read_week (h @ ext) r = Some wk"
  by (auto simp: read_week_def read_days_append
      split: option.splits js_object.splits dest: heap_lookup_append[where ext=ext])

lemma map_read_week_append:
  "map (read_week h) rs = map Some ws \<Longrightarrow> map (read_week (h @ ext)) rs = map Some ws"
proof (induction rs arbitrary: ws)
  case Nil
  then show ?case by simp
next
  case (Cons r rs)
  then show ?case by (cases ws) (auto simp: read_week_append)
qed

lemma read_calendar_append:
  assumes "read_calendar h r = Some c"
  shows "read_calendar (h @ ext) r = Some c"
proof -
  from assms obtain total_count weeks_ref week_refs where
    c: "heap_lookup h r = Some (CalendarObject total_count weeks_ref)" and
    wr: "heap_lookup h weeks_ref = Some (ArrayObject week_refs)" and
    ws: "map (read_week h) week_refs = map Some (weeks c)" and
    tc: "totalContributions c = total_count"
    by (auto simp: read_calendar_def those_eq_Some split: option.splits js_object.splits)
  show ?thesis
    using heap_lookup_append[OF c, of ext] heap_lookup_append[OF wr, of ext]
      map_read_week_append[OF ws, of ext] tc
    by (simp add: read_calendar_def those_eq_Some)
qed

lemma flatMap_heap_reads:
  "map (read_week h) week_refs = map Some ws \<Longrightarrow>
   \<exists>elems. flatMap_heap h week_refs = Some elems \<and>
     map (read_day h) elems = map Some (flatMap_contributionDays ws)"
proof (induction week_refs arbitrary: ws)
  case Nil
  then show ?case by (simp add: flatMap_contributionDays_def)
next
  case (Cons r rs)
  then obtain wk ws' where ws: "ws = wk # ws'" and r: "read_week h r = Some wk"
    and rs: "map (read_week h) rs = map Some ws'"
    by (cases ws) auto
  from Cons.IH[OF rs] obtain rest where rest: "flatMap_heap h rs = Some rest"
    "map (read_day h) rest = map Some (flatMap_contributionDays ws')" by blast
  from r obtain days_ref drefs where
    "heap_lookup h r = Some (WeekObject days_ref)"
    "heap_lookup h days_ref = Some (ArrayObject drefs)"
    "map (read_day h) drefs = map Some (contributionDays wk)"
    by (auto simp: read_week_def read_days_def those_eq_Some split: option.splits js_object.splits)
  with rest ws show ?case
    by (simp add: week_contributionDays_def flatMap_contributionDays_def)
qed

lemma map_array_slice: "map f (array_slice xs k) = array_slice (map f xs) k"
  by (simp add: array_slice_def Let_def drop_map)

lemma heap_lookup_new: "heap_lookup (h @ [obj]) (length h) = Some obj"
  by (simp add: heap_lookup_def)

lemma getRecentContributions_heap_run:
  assumes "read_calendar h c = Some calendar"
  shows "\<exists>result h'. getRecentContributions_heap h c days = Some (result, h') \<and>
           take (length h) h' = h \<and>
           read_calendar h' c = Some calendar \<and>
           read_days h' result = Some (getRecentContributions calendar days)"
proof -
  from assms obtain total_count weeks_ref week_refs where
    c: "heap_lookup h c = Some (CalendarObject total_count weeks_ref)" and
    wr: "heap_lookup h weeks_ref = Some (ArrayObject week_refs)" and
    ws: "map (read_week h) week_refs = map Some (weeks calendar)"
    by (auto simp: read_calendar_def those_eq_Some split: option.splits js_object.splits)
  from flatMap_heap_reads[OF ws] obtain elems where
    fm: "flatMap_heap h week_refs = Some elems" and
    el: "map (read_day h) elems = map Some (flatMap_contributionDays (weeks calendar))"
    by blast
  let ?d = "case days of None \<Rightarrow> 365 | Some d \<Rightarrow> d"
  let ?h' = "(h @ [ArrayObject elems]) @ [ArrayObject (array_slice elems (- ?d))]"
  have run: "getRecentContributions_heap h c days = Some (Suc (length h), ?h')"
    by (simp add: getRecentContributions_heap_def c wr fm heap_alloc_def heap_lookup_new)
  have frame: "take (length h) ?h' = h" by simp
  have cal: "read_calendar ?h' c = Some calendar"
    using assms by (simp only: read_calendar_append)
  have "map (read_day ?h') elems = map Some (flatMap_contributionDays (weeks calendar))"
    using el by (simp only: map_read_day_append)
  then have "map (read_day ?h') (array_slice elems (- ?d)) =
      map Some (array_slice (flatMap_contributionDays (weeks calendar)) (- ?d))"
    by (simp only: map_array_slice)
  moreover have "heap_lookup ?h' (Suc (length h)) = Some (ArrayObject (array_slice elems (- ?d)))"
    using heap_lookup_new[of "h @ [ArrayObject elems]"] by simp
  ultimately have res: "read_days ?h' (Suc (length h)) = Some (getRecentContributions calendar days)"
    by (simp add: read_days_def those_eq_Some getRecentContributions_def)
  from run frame cal res show ?thesis by blast
qed

lemma two_day_heap_calendar: "read_calendar two_day_heap 5 = Some two_day_calendar"
  by (simp add: read_calendar_def read_week_def read_days_def read_day_def two_day_heap_def
      heap_lookup_def two_day_calendar_def some_day_def other_day_def)

lemma two_day_heap_run:
  "getRecentContributions_heap two_day_heap 5 (Some 1) =
     Some (7, two_day_heap @ [ArrayObject [0, 1], ArrayObject [1]])"
  by (simp add: getRecentContributions_heap_def two_day_heap_def heap_lookup_def heap_alloc_def
      week_contributionDays_def array_slice_def)

text \<open>
  C9. \<^verbatim>\<open>getRecentContributions\<close> has no parameter and no result but the calendar, the day
  count and the array, so it reads and writes nothing of the world (environment,
  transport, console). Called on a heap that holds a calendar at \<open>c\<close>, it returns, every
  object that was on the heap is still there unchanged (the calendar, its total, its
  arrays of weeks and days, every day), the calendar read back is the same, the array it
  returns holds the window, and a second call with the same arguments returns an array
  with the same content.
\<close>

theorem getRecentContributions_leaves_calendar:
  assumes "read_calendar h c = Some calendar"
  shows "\<exists>result h'.
           getRecentContributions_heap h c days = Some (result, h') \<and>
           take (length h) h' = h \<and>
           read_calendar h' c = Some calendar \<and>
           read_days h' result = Some (getRecentContributions calendar days) \<and>
           (\<exists>result2 h2.
              getRecentContributions_heap h' c days = Some (result2, h2) \<and>
              take (length h') h2 = h' \<and>
              read_calendar h2 c = Some calendar \<and>
              read_days h2 result2 = Some (getRecentContributions calendar days))"
proof -
  from getRecentContributions_heap_run[OF assms, of days] obtain result h' where
    first: "getRecentContributions_heap h c days = Some (result, h')"
      "take (length h) h' = h" "read_calendar h' c = Some calendar"
      "read_days h' result = Some (getRecentContributions calendar days)"
    by blast
  from getRecentContributions_heap_run[OF first(3), of days] obtain result2 h2 where
    "getRecentContributions_heap h' c days = Some (result2, h2)"
      "take (length h') h2 = h'" "read_calendar h2 c = Some calendar"
      "read_days h2 result2 = Some (getRecentContributions calendar days)"
    by blast
  with first show ?thesis by blast
qed

text \<open>The theorem of C9 on the heap that holds the calendar of two days, day count 1.\<close>

theorem getRecentContributions_leaves_calendar_witness:
  "read_calendar two_day_heap 5 = Some two_day_calendar \<and>
   (\<exists>result h'.
      getRecentContributions_heap two_day_heap 5 (Some 1) = Some (result, h') \<and>
      take (length two_day_heap) h' = two_day_heap \<and>
      read_calendar h' 5 = Some two_day_calendar \<and>
      read_days h' result = Some (getRecentContributions two_day_calendar (Some 1)) \<and>
      (\<exists>result2 h2.
         getRecentContributions_heap h' 5 (Some 1) = Some (result2, h2) \<and>
         take (length h') h2 = h' \<and>
         read_calendar h2 5 = Some two_day_calendar \<and>
         read_days h2 result2 = Some (getRecentContributions two_day_calendar (Some 1))))"
  using getRecentContributions_leaves_calendar[OF two_day_heap_calendar, of "Some 1"]
    two_day_heap_calendar by blast

section \<open>Properties of the fetcher\<close>

lemmas run_fetcher = fetchGitHubContributions_def try_block_def js_or_def js_truthy_def
  graphql_request_def demo_world_def demo_remote_def calendar_120_def world_with_env_def

lemma try_block_env: "env (snd (try_block uname t w)) = env w"
  by (simp add: try_block_def Let_def split: fetch_outcome.splits json_outcome.splits option.splits)

lemma try_block_remote: "remote (snd (try_block uname t w)) = remote w"
  by (simp add: try_block_def Let_def split: fetch_outcome.splits json_outcome.splits option.splits)

lemma try_block_requests:
  "requests (snd (try_block uname t w)) = requests w @ [graphql_request uname t]"
  by (simp add: try_block_def Let_def split: fetch_outcome.splits json_outcome.splits option.splits)

lemma try_block_result_cong:
  "env w' = env w \<Longrightarrow> remote w' = remote w \<Longrightarrow>
   fst (try_block uname t w') = fst (try_block uname t w)"
  by (simp add: try_block_def Let_def split: fetch_outcome.splits json_outcome.splits option.splits)

lemma fetchGitHubContributions_env:
  "env (snd (fetchGitHubContributions uname token_arg w)) = env w"
proof -
  let ?t = "case js_or (js_or token_arg (GITHUB_TOKEN_PERSONAL (env w))) (GITHUB_TOKEN (env w))
            of Some t \<Rightarrow> t | None \<Rightarrow> []"
  obtain r w' where tb: "try_block uname ?t w = (r, w')"
    by (cases "try_block uname ?t w")
  with try_block_env[of uname ?t w] have "env w' = env w" by simp
  with tb show ?thesis
    by (simp add: fetchGitHubContributions_def Let_def split: sum.splits)
qed

lemma fetchGitHubContributions_remote:
  "remote (snd (fetchGitHubContributions uname token_arg w)) = remote w"
proof -
  let ?t = "case js_or (js_or token_arg (GITHUB_TOKEN_PERSONAL (env w))) (GITHUB_TOKEN (env w))
            of Some t \<Rightarrow> t | None \<Rightarrow> []"
  obtain r w' where tb: "try_block uname ?t w = (r, w')"
    by (cases "try_block uname ?t w")
  with try_block_remote[of uname ?t w] have "remote w' = remote w" by simp
  with tb show ?thesis
    by (simp add: fetchGitHubContributions_def Let_def split: sum.splits)
qed

lemma fetchGitHubContributions_result:
  "fst (fetchGitHubContributions uname token_arg w) =
     (let githubToken =
            js_or (js_or token_arg (GITHUB_TOKEN_PERSONAL (env w))) (GITHUB_TOKEN (env w))
      in if \<not> js_truthy githubToken then Inr None
         else (case fst (try_block uname (case githubToken of Some t \<Rightarrow> t | None \<Rightarrow> []) w) of
                 Inl error \<Rightarrow> Inr None
               | Inr calendar \<Rightarrow> Inr calendar))"
  by (simp add: fetchGitHubContributions_def Let_def split: prod.splits sum.splits)

lemma fetchGitHubContributions_result_cong:
  assumes "env w' = env w" "remote w' = remote w"
  shows "fst (fetchGitHubContributions uname token_arg w') =
         fst (fetchGitHubContributions uname token_arg w)"
  by (simp add: fetchGitHubContributions_result Let_def assms try_block_result_cong[OF assms])

lemma try_block_can_throw:
  "remote w (graphql_request uname t) = FetchRejects \<Longrightarrow>
   fst (try_block uname t w) = Inl NetworkFault"
  by (simp add: try_block_def Let_def)

lemma fetchGitHubContributions_truthy:
  assumes "js_or (js_or token_arg (GITHUB_TOKEN_PERSONAL (env w))) (GITHUB_TOKEN (env w)) = Some t"
    and "t \<noteq> []"
  shows "requests (snd (fetchGitHubContributions uname token_arg w)) =
         requests w @ [graphql_request uname t]"
proof -
  obtain r w' where tb: "try_block uname t w = (r, w')"
    by (cases "try_block uname t w")
  with try_block_requests[of uname t w]
  have "requests w' = requests w @ [graphql_request uname t]" by simp
  with tb assms show ?thesis
    by (simp add: fetchGitHubContributions_def Let_def js_truthy_def split: sum.splits)
qed

lemma fetchGitHubContributions_falsy:
  assumes "\<not> js_truthy (js_or (js_or token_arg (GITHUB_TOKEN_PERSONAL (env w))) (GITHUB_TOKEN (env w)))"
  shows "fst (fetchGitHubContributions uname token_arg w) = Inr None"
    and "requests (snd (fetchGitHubContributions uname token_arg w)) = requests w"
  using assms by (simp_all add: fetchGitHubContributions_def Let_def)

lemma fetchGitHubContributions_absorbs_throw:
  assumes "js_or (js_or token_arg (GITHUB_TOKEN_PERSONAL (env w))) (GITHUB_TOKEN (env w)) = Some t"
    and "fst (try_block uname t w) = Inl e"
  shows "fst (fetchGitHubContributions uname token_arg w) = Inr None"
  using assms by (simp add: fetchGitHubContributions_result Let_def)

lemma try_block_throws_on_status:
  "remote w (graphql_request uname t) = Resolves r \<Longrightarrow> \<not> ok r \<Longrightarrow>
   fst (try_block uname t w) = Inl (GitHubApiError (status r) (statusText r))"
  by (simp add: try_block_def Let_def)

lemma try_block_throws_on_parse:
  "remote w (graphql_request uname t) = Resolves r \<Longrightarrow> ok r \<Longrightarrow> json r = JsonRejects \<Longrightarrow>
   fst (try_block uname t w) = Inl ParseFault"
  by (simp add: try_block_def Let_def)

lemma try_block_user_missing:
  "remote w (graphql_request uname t) = Resolves r \<Longrightarrow> ok r \<Longrightarrow> json r = JsonValue body \<Longrightarrow>
   (case data body of None \<Rightarrow> None | Some d \<Rightarrow> user d) = None \<Longrightarrow>
   fst (try_block uname t w) = Inr None"
  by (simp add: try_block_def Let_def)

text \<open>
  C4. Whatever the username, the token, the environment and the transport do, the call
  resolves to a calendar or to null (\<open>Inr\<close>), never to a thrown value (\<open>Inl\<close>). The
  \<^verbatim>\<open>try\<close> block itself does throw: on a rejected \<^verbatim>\<open>fetch\<close>, on a response that is not
  ok, on a rejected \<^verbatim>\<open>json()\<close> (the lemmas above); whatever it throws, the call resolves
  to null.
\<close>

theorem fetchGitHubContributions_never_raises:
  "(\<exists>outcome. fst (fetchGitHubContributions uname token_arg w) = Inr outcome) \<and>
   (js_or (js_or token_arg (GITHUB_TOKEN_PERSONAL (env w))) (GITHUB_TOKEN (env w)) = Some t \<and>
    fst (try_block uname t w) = Inl e \<longrightarrow>
      fst (fetchGitHubContributions uname token_arg w) = Inr None)"
proof (intro conjI impI)
  show "\<exists>outcome. fst (fetchGitHubContributions uname token_arg w) = Inr outcome"
    by (simp add: fetchGitHubContributions_result Let_def split: sum.splits)
next
  assume "js_or (js_or token_arg (GITHUB_TOKEN_PERSONAL (env w))) (GITHUB_TOKEN (env w)) =
      Some t \<and> fst (try_block uname t w) = Inl e"
  then show "fst (fetchGitHubContributions uname token_arg w) = Inr None"
    by (simp add: fetchGitHubContributions_absorbs_throw)
qed

text \<open>
  The theorem of C4 on a call whose token the remote source refuses: the \<^verbatim>\<open>try\<close> block
  throws the error for status 401, the call resolves to null.
\<close>

theorem fetchGitHubContributions_never_raises_witness:
  "js_or (js_or (Some ''bad'') (GITHUB_TOKEN_PERSONAL (env demo_world)))
     (GITHUB_TOKEN (env demo_world)) = Some ''bad'' \<and>
   fst (try_block ''octocat'' ''bad'' demo_world) = Inl (GitHubApiError 401 ''Unauthorized'') \<and>
   fst (fetchGitHubContributions ''octocat'' (Some ''bad'') demo_world) = Inr None"
proof -
  have g: "js_or (js_or (Some ''bad'') (GITHUB_TOKEN_PERSONAL (env demo_world)))
     (GITHUB_TOKEN (env demo_world)) = Some ''bad''"
    by (simp add: js_or_def js_truthy_def)
  have e: "fst (try_block ''octocat'' ''bad'' demo_world) =
      Inl (GitHubApiError 401 ''Unauthorized'')"
    by (simp add: try_block_def graphql_request_def demo_world_def demo_remote_def)
  from fetchGitHubContributions_never_raises[of "''octocat''" "Some ''bad''" demo_world
      "''bad''" "GitHubApiError 401 ''Unauthorized''"] g e
  show ?thesis by blast
qed

text \<open>
  C5. The credential is the explicit token when that is a non-empty string, else the
  personal fallback when that is one, else the generic fallback when that is one; the
  call then issues one request, with that credential as the bearer. When none of the
  three is a non-empty string the call returns null and issues no request.
\<close>

theorem fetchGitHubContributions_credential_order:
  "(token_arg = Some t \<and> t \<noteq> [] \<longrightarrow>
      requests (snd (fetchGitHubContributions uname token_arg w)) =
        requests w @ [graphql_request uname t]) \<and>
   (\<not> js_truthy token_arg \<and> GITHUB_TOKEN_PERSONAL (env w) = Some p \<and> p \<noteq> [] \<longrightarrow>
      requests (snd (fetchGitHubContributions uname token_arg w)) =
        requests w @ [graphql_request uname p]) \<and>
   (\<not> js_truthy token_arg \<and> \<not> js_truthy (GITHUB_TOKEN_PERSONAL (env w)) \<and>
    GITHUB_TOKEN (env w) = Some g \<and> g \<noteq> [] \<longrightarrow>
      requests (snd (fetchGitHubContributions uname token_arg w)) =
        requests w @ [graphql_request uname g]) \<and>
   (\<not> js_truthy token_arg \<and> \<not> js_truthy (GITHUB_TOKEN_PERSONAL (env w)) \<and>
    \<not> js_truthy (GITHUB_TOKEN (env w)) \<longrightarrow>
      fst (fetchGitHubContributions uname token_arg w) = Inr None \<and>
      requests (snd (fetchGitHubContributions uname token_arg w)) = requests w)"
proof (intro conjI impI)
  assume "token_arg = Some t \<and> t \<noteq> []"
  then show "requests (snd (fetchGitHubContributions uname token_arg w)) =
        requests w @ [graphql_request uname t]"
    using fetchGitHubContributions_truthy[of token_arg w t uname]
    by (simp add: js_or_def js_truthy_def)
next
  assume "\<not> js_truthy token_arg \<and> GITHUB_TOKEN_PERSONAL (env w) = Some p \<and> p \<noteq> []"
  then show "requests (snd (fetchGitHubContributions uname token_arg w)) =
        requests w @ [graphql_request uname p]"
    using fetchGitHubContributions_truthy[of token_arg w p uname]
    by (simp add: js_or_def js_truthy_def)
next
  assume "\<not> js_truthy token_arg \<and> \<not> js_truthy (GITHUB_TOKEN_PERSONAL (env w)) \<and>
    GITHUB_TOKEN (env w) = Some g \<and> g \<noteq> []"
  then show "requests (snd (fetchGitHubContributions uname token_arg w)) =
        requests w @ [graphql_request uname g]"
    using fetchGitHubContributions_truthy[of token_arg w g uname]
    by (simp add: js_or_def)
next
  assume "\<not> js_truthy token_arg \<and> \<not> js_truthy (GITHUB_TOKEN_PERSONAL (env w)) \<and>
    \<not> js_truthy (GITHUB_TOKEN (env w))"
  then have "\<not> js_truthy
      (js_or (js_or token_arg (GITHUB_TOKEN_PERSONAL (env w))) (GITHUB_TOKEN (env w)))"
    by (simp add: js_or_def)
  then show "fst (fetchGitHubContributions uname token_arg w) = Inr None"
    and "requests (snd (fetchGitHubContributions uname token_arg w)) = requests w"
    by (rule fetchGitHubContributions_falsy)+
qed

text \<open>
  The theorem of C5 at four calls, one for each rank of the order: an explicit token
  beside both fallbacks, no token beside both fallbacks, no token beside the generic
  fallback alone, and nothing at all.
\<close>

theorem fetchGitHubContributions_credential_order_witness:
  "map authorization
     (requests (snd (fetchGitHubContributions ''octocat'' (Some ''explicit'')
        (world_with_env (Some ''personal'') (Some ''generic''))))) = [''Bearer explicit''] \<and>
   map authorization
     (requests (snd (fetchGitHubContributions ''octocat'' None
        (world_with_env (Some ''personal'') (Some ''generic''))))) = [''Bearer personal''] \<and>
   map authorization
     (requests (snd (fetchGitHubContributions ''octocat'' None
        (world_with_env None (Some ''generic''))))) = [''Bearer generic''] \<and>
   fst (fetchGitHubContributions ''octocat'' None (world_with_env None None)) = Inr None \<and>
   requests (snd (fetchGitHubContributions ''octocat'' None (world_with_env None None))) = []"
  using
    fetchGitHubContributions_credential_order[of "Some ''explicit''" "''explicit''"
      "''octocat''" "world_with_env (Some ''personal'') (Some ''generic'')" "''personal''"
      "''generic''"]
    fetchGitHubContributions_credential_order[of None "''explicit''"
      "''octocat''" "world_with_env (Some ''personal'') (Some ''generic'')" "''personal''"
      "''generic''"]
    fetchGitHubContributions_credential_order[of None "''explicit''"
      "''octocat''" "world_with_env None (Some ''generic'')" "''personal''" "''generic''"]
    fetchGitHubContributions_credential_order[of None "''explicit''"
      "''octocat''" "world_with_env None None" "''personal''" "''generic''"]
  by (simp add: world_with_env_def js_truthy_def graphql_request_def)

text \<open>
  C10. A call with the empty string as its token is the same call as one with no token:
  same result, same requests, same console lines. No request the call issues carries an
  empty bearer credential, and with no usable fallback the call returns null and issues
  no request.
\<close>

theorem fetchGitHubContributions_empty_token:
  "fetchGitHubContributions uname (Some []) w = fetchGitHubContributions uname None w \<and>
   (\<forall>req \<in> set (requests (snd (fetchGitHubContributions uname token_arg w))) -
              set (requests w).
      authorization req \<noteq> ''Bearer '') \<and>
   (\<not> js_truthy (GITHUB_TOKEN_PERSONAL (env w)) \<and> \<not> js_truthy (GITHUB_TOKEN (env w)) \<longrightarrow>
      fst (fetchGitHubContributions uname (Some []) w) = Inr None \<and>
      requests (snd (fetchGitHubContributions uname (Some []) w)) = requests w)"
proof (intro conjI impI)
  show "fetchGitHubContributions uname (Some []) w = fetchGitHubContributions uname None w"
    by (simp add: fetchGitHubContributions_def js_or_def js_truthy_def)
next
  show "\<forall>req \<in> set (requests (snd (fetchGitHubContributions uname token_arg w))) -
              set (requests w).
      authorization req \<noteq> ''Bearer ''"
  proof (cases "js_truthy
      (js_or (js_or token_arg (GITHUB_TOKEN_PERSONAL (env w))) (GITHUB_TOKEN (env w)))")
    case True
    then obtain t where
      t: "js_or (js_or token_arg (GITHUB_TOKEN_PERSONAL (env w))) (GITHUB_TOKEN (env w)) = Some t"
        "t \<noteq> []"
      by (auto simp: js_truthy_def split: option.splits)
    from fetchGitHubContributions_truthy[OF t] t(2) show ?thesis
      by (auto simp: graphql_request_def)
  next
    case False
    from fetchGitHubContributions_falsy(2)[OF this] show ?thesis by simp
  qed
next
  assume "\<not> js_truthy (GITHUB_TOKEN_PERSONAL (env w)) \<and> \<not> js_truthy (GITHUB_TOKEN (env w))"
  then have f: "\<not> js_truthy
      (js_or (js_or (Some []) (GITHUB_TOKEN_PERSONAL (env w))) (GITHUB_TOKEN (env w)))"
    by (simp add: js_or_def js_truthy_def)
  show "fst (fetchGitHubContributions uname (Some []) w) = Inr None"
    by (rule fetchGitHubContributions_falsy(1)[OF f])
  show "requests (snd (fetchGitHubContributions uname (Some []) w)) = requests w"
    by (rule fetchGitHubContributions_falsy(2)[OF f])
qed

text \<open>
  The theorem of C10 where a personal fallback is set (the empty token falls through to
  it) and where nothing is set.
\<close>

theorem fetchGitHubContributions_empty_token_witness:
  "fetchGitHubContributions ''octocat'' (Some []) (world_with_env (Some ''good'') None) =
     fetchGitHubContributions ''octocat'' None (world_with_env (Some ''good'') None) \<and>
   map authorization
     (requests (snd (fetchGitHubContributions ''octocat'' (Some [])
        (world_with_env (Some ''good'') None)))) = [''Bearer good''] \<and>
   fst (fetchGitHubContributions ''octocat'' (Some []) (world_with_env None None)) = Inr None \<and>
   requests (snd (fetchGitHubContributions ''octocat'' (Some []) (world_with_env None None))) = []"
  using
    fetchGitHubContributions_empty_token[of "''octocat''"
      "world_with_env (Some ''good'') None" "Some []"]
    fetchGitHubContributions_empty_token[of "''octocat''" "world_with_env None None" "Some []"]
  by (simp add: run_fetcher)

section \<open>Properties of the aggregator\<close>

lemmas run_aggregator = aggregateContributions_def forEach_callback_def assign_property_def
  number_add_def double_round_def

lemma set_property_new:
  "k \<notin> fst ` set props \<Longrightarrow> set_property k v props = props @ [(k, v)]"
  by (induction props) auto

lemma assign_property_new:
  "k \<noteq> ''__proto__'' \<Longrightarrow> k \<notin> fst ` set props \<Longrightarrow>
   assign_property k v props = props @ [(k, v)]"
  by (simp add: assign_property_def set_property_new)

lemma assign_property_proto: "assign_property ''__proto__'' v props = props"
  by (simp add: assign_property_def)

text \<open>
  Addition is exact while the sum stays within \<open>2^53\<close> in magnitude, and rounds beyond:
  \<open>2^53 + 1\<close> is \<open>2^53\<close>.
\<close>

lemma number_add_exact: "\<bar>a + b\<bar> \<le> 2 ^ 53 \<Longrightarrow> number_add a b = a + b"
  by (simp add: number_add_def double_round_def)

lemma bit_length_bounds: "2 ^ k \<le> n \<Longrightarrow> n < 2 ^ Suc k \<Longrightarrow> bit_length n = Suc k"
proof (induction k arbitrary: n)
  case 0
  then have "n = 1" by simp
  then show ?case by (simp add: bit_length.simps)
next
  case (Suc k)
  then have "2 ^ k \<le> n div 2" "n div 2 < 2 ^ Suc k" "n \<noteq> 0" by auto
  with Suc.IH[of "n div 2"] show ?case
    by (subst bit_length.simps) simp
qed

lemma number_add_rounds: "number_add 9007199254740992 1 = 9007199254740992"
proof -
  have "bit_length 9007199254740993 = 54"
    using bit_length_bounds[of 53 9007199254740993] by simp
  then show ?thesis
    by (simp add: number_add_def double_round_def Let_def)
qed

lemma sum_list_abs_nonneg: "0 \<le> sum_list (map (\<lambda>r. \<bar>f r :: int\<bar>) rs)"
  by (induction rs) simp_all

lemma forEach_callback_in_range:
  assumes "index < length accounts"
    and "\<bar>totalContributions_agg acc + contribution result\<bar> \<le> 2 ^ 53"
  shows "forEach_callback accounts result index acc =
     Inr \<lparr>totalContributions_agg = totalContributions_agg acc + contribution result,
          byAccount = assign_property (username (accounts ! index)) (contribution result)
                        (byAccount acc)\<rparr>"
  using assms
  by (cases result rule: contribution.cases)
    (simp_all add: forEach_callback_def Let_def number_add_exact)

lemma forEach_distinct:
  assumes "index + length results = length accounts"
    and "distinct (map username (drop index accounts))"
    and "''__proto__'' \<notin> username ` set (drop index accounts)"
    and "fst ` set (byAccount acc) \<inter> username ` set (drop index accounts) = {}"
    and "\<bar>totalContributions_agg acc\<bar> + sum_list (map (\<lambda>r. \<bar>contribution r\<bar>) results)
           \<le> 2 ^ 53"
  shows "forEach accounts results index acc =
     Inr \<lparr>totalContributions_agg =
            totalContributions_agg acc + sum_list (map contribution results),
          byAccount = byAccount acc @
            zip (map username (drop index accounts)) (map contribution results)\<rparr>"
  using assms
proof (induction results arbitrary: index acc)
  case Nil
  then show ?case by simp
next
  case (Cons r rs)
  from Cons.prems(1) have lt: "index < length accounts" by simp
  then have dr: "drop index accounts = accounts ! index # drop (Suc index) accounts"
    by (simp add: Cons_nth_drop_Suc)
  let ?u = "username (accounts ! index)"
  let ?acc = "\<lparr>totalContributions_agg = totalContributions_agg acc + contribution r,
               byAccount = assign_property ?u (contribution r) (byAccount acc)\<rparr>"
  have rest: "0 \<le> sum_list (map (\<lambda>r. \<bar>contribution r\<bar>) rs)"
    by (rule sum_list_abs_nonneg)
  with Cons.prems(5) have small: "\<bar>totalContributions_agg acc + contribution r\<bar> \<le> 2 ^ 53"
    by simp
  from Cons.prems(3) dr have np: "?u \<noteq> ''__proto__''" by auto
  from Cons.prems(4) dr have new: "?u \<notin> fst ` set (byAccount acc)" by auto
  from np new have sp: "assign_property ?u (contribution r) (byAccount acc) =
      byAccount acc @ [(?u, contribution r)]"
    by (rule assign_property_new)
  have 1: "Suc index + length rs = length accounts" using Cons.prems(1) by simp
  have 2: "distinct (map username (drop (Suc index) accounts))"
    using Cons.prems(2) dr by simp
  have 3: "''__proto__'' \<notin> username ` set (drop (Suc index) accounts)"
    using Cons.prems(3) dr by simp
  have 4: "fst ` set (byAccount ?acc) \<inter> username ` set (drop (Suc index) accounts) = {}"
    using Cons.prems(2,4) dr sp by auto
  have 5: "\<bar>totalContributions_agg ?acc\<bar> + sum_list (map (\<lambda>r. \<bar>contribution r\<bar>) rs)
      \<le> 2 ^ 53"
    using Cons.prems(5) by simp
  show ?case
    using Cons.IH[OF 1 2 3 4 5] sp dr
    by (simp add: forEach_callback_in_range[OF lt small])
qed

text \<open>
  Whatever the usernames, the loop returns, and while no addition rounds the combined
  total is the sum of what the invocations contribute, one summand for each position of
  the input.
\<close>

lemma forEach_total:
  assumes "index + length results \<le> length accounts"
    and "\<bar>totalContributions_agg acc\<bar> + sum_list (map (\<lambda>r. \<bar>contribution r\<bar>) results)
           \<le> 2 ^ 53"
  shows "\<exists>agg. forEach accounts results index acc = Inr agg \<and>
     totalContributions_agg agg =
       totalContributions_agg acc + sum_list (map contribution results)"
  using assms
proof (induction results arbitrary: index acc)
  case Nil
  then show ?case by simp
next
  case (Cons r rs)
  then have lt: "index < length accounts" and le: "Suc index + length rs \<le> length accounts"
    by simp_all
  let ?acc = "\<lparr>totalContributions_agg = totalContributions_agg acc + contribution r,
               byAccount = assign_property (username (accounts ! index)) (contribution r)
                             (byAccount acc)\<rparr>"
  have rest: "0 \<le> sum_list (map (\<lambda>r. \<bar>contribution r\<bar>) rs)"
    by (rule sum_list_abs_nonneg)
  with Cons.prems(2) have small: "\<bar>totalContributions_agg acc + contribution r\<bar> \<le> 2 ^ 53"
    by simp
  have next_small: "\<bar>totalContributions_agg ?acc\<bar> +
      sum_list (map (\<lambda>r. \<bar>contribution r\<bar>) rs) \<le> 2 ^ 53"
    using Cons.prems(2) by simp
  from Cons.IH[OF le next_small] show ?case
    by (auto simp: forEach_callback_in_range[OF lt small])
qed

lemma allSettled_fetch_Cons:
  "allSettled_fetch (a # accounts) w =
     (let f = fetchGitHubContributions (username a) (token a) w;
          rest = allSettled_fetch accounts (snd f)
      in (settle (fst f) # fst rest, snd rest))"
  by (simp add: Let_def split: prod.splits)

lemma allSettled_fetch_length: "length (fst (allSettled_fetch accounts w)) = length accounts"
  by (induction accounts arbitrary: w)
    (simp_all del: allSettled_fetch.simps(2) add: allSettled_fetch_Cons Let_def)

lemma allSettled_fetch_results:
  "fst (allSettled_fetch accounts w) =
     map (\<lambda>a. settle (fst (fetchGitHubContributions (username a) (token a) w))) accounts"
proof (induction accounts arbitrary: w)
  case Nil
  then show ?case by simp
next
  case (Cons a accounts)
  let ?w1 = "snd (fetchGitHubContributions (username a) (token a) w)"
  have same: "env ?w1 = env w" "remote ?w1 = remote w"
    by (rule fetchGitHubContributions_env, rule fetchGitHubContributions_remote)
  have "fst (allSettled_fetch accounts ?w1) =
     map (\<lambda>a. settle (fst (fetchGitHubContributions (username a) (token a) w))) accounts"
    by (simp add: Cons.IH fetchGitHubContributions_result_cong[OF same])
  then show ?case
    by (simp del: allSettled_fetch.simps(2) add: allSettled_fetch_Cons Let_def)
qed

lemma aggregateContributions_fst:
  "fst (aggregateContributions accounts w) =
     forEach accounts (fst (allSettled_fetch accounts w)) 0
       \<lparr>totalContributions_agg = 0, byAccount = []\<rparr>"
  by (simp add: aggregateContributions_def split: prod.splits)

lemma aggregateContributions_total:
  assumes "sum_list (map (\<lambda>r. \<bar>contribution r\<bar>) (fst (allSettled_fetch accounts w))) \<le> 2 ^ 53"
  shows "\<exists>agg. fst (aggregateContributions accounts w) = Inr agg \<and>
     totalContributions_agg agg =
       sum_list (map contribution (fst (allSettled_fetch accounts w)))"
  using forEach_total[of 0 "fst (allSettled_fetch accounts w)" accounts
      "\<lparr>totalContributions_agg = 0, byAccount = []\<rparr>"] assms
  by (simp add: aggregateContributions_fst allSettled_fetch_length)

lemma forEach_distinct_start:
  assumes "distinct (map username accounts)"
    and "''__proto__'' \<notin> set (map username accounts)"
    and "length results = length accounts"
    and "sum_list (map (\<lambda>r. \<bar>contribution r\<bar>) results) \<le> 2 ^ 53"
  shows "forEach accounts results 0 \<lparr>totalContributions_agg = 0, byAccount = []\<rparr> =
     Inr \<lparr>totalContributions_agg = sum_list (map contribution results),
          byAccount = zip (map username accounts) (map contribution results)\<rparr>"
  using forEach_distinct[of 0 results accounts "\<lparr>totalContributions_agg = 0, byAccount = []\<rparr>"]
    assms by simp

lemma aggregateContributions_distinct:
  assumes "distinct (map username accounts)"
    and "''__proto__'' \<notin> set (map username accounts)"
    and "sum_list (map (\<lambda>a. \<bar>contribution
           (settle (fst (fetchGitHubContributions (username a) (token a) w)))\<bar>) accounts)
         \<le> 2 ^ 53"
  shows "fst (aggregateContributions accounts w) =
     Inr \<lparr>totalContributions_agg =
            sum_list (map (\<lambda>a. contribution
              (settle (fst (fetchGitHubContributions (username a) (token a) w)))) accounts),
          byAccount =
            map (\<lambda>a. (username a, contribution
              (settle (fst (fetchGitHubContributions (username a) (token a) w))))) accounts\<rparr>"
proof -
  let ?rs = "fst (allSettled_fetch accounts w)"
  have len: "length ?rs = length accounts" by (rule allSettled_fetch_length)
  have small: "sum_list (map (\<lambda>r. \<bar>contribution r\<bar>) ?rs) \<le> 2 ^ 53"
    using assms(3) by (simp add: allSettled_fetch_results comp_def)
  have "map contribution ?rs = map (\<lambda>a. contribution
      (settle (fst (fetchGitHubContributions (username a) (token a) w)))) accounts"
    by (simp add: allSettled_fetch_results)
  moreover have "zip (map username accounts) (map contribution ?rs) =
      map (\<lambda>a. (username a, contribution
        (settle (fst (fetchGitHubContributions (username a) (token a) w))))) accounts"
    by (simp add: allSettled_fetch_results zip_map_map zip_same_conv_map)
  ultimately show ?thesis
    using forEach_distinct_start[OF assms(1,2) len small]
    by (simp only: aggregateContributions_fst)
qed

text \<open>
  Where the equality of total and mapping breaks, beside a shared username. An account
  named \<^verbatim>\<open>__proto__\<close> adds its 120 to the total and gets no entry in the mapping. Totals
  of \<open>2^53\<close> and 1 add up to \<open>2^53\<close> in the code, while the values of the mapping sum to
  \<open>2^53 + 1\<close>.
\<close>

lemma aggregateContributions_proto_username:
  "fst (aggregateContributions [proto_good] demo_world) =
     Inr \<lparr>totalContributions_agg = 120, byAccount = []\<rparr>"
  by (simp add: run_fetcher run_aggregator proto_good_def)

lemma aggregateContributions_rounds:
  "fst (aggregateContributions [octocat_good, hubot_good] big_world) =
     Inr \<lparr>totalContributions_agg = 9007199254740992,
          byAccount = [(''octocat'', 9007199254740992), (''hubot'', 1)]\<rparr>"
proof -
  have "number_add 0 9007199254740992 = 9007199254740992"
    by (simp add: number_add_exact)
  then show ?thesis
    by (simp add: fetchGitHubContributions_def try_block_def js_or_def js_truthy_def
        graphql_request_def big_world_def big_remote_def aggregateContributions_def
        forEach_callback_def assign_property_def octocat_good_def hubot_good_def
        calendar_2_53_def calendar_1_def number_add_rounds)
qed

text \<open>
  C1, as amended. For every list of accounts whose usernames are pairwise distinct and
  none of which is \<^verbatim>\<open>__proto__\<close>, and whose contributions are integers with magnitudes
  that sum to \<open>2^53\<close> at most, the call returns, the combined total is the sum of the
  values of the per-account mapping, and the mapping holds one entry for each account,
  created in input order, with what its invocation contributes: the calendar's total, or
  0 when the fetcher returned null. The first half states the same for the loop over any settled results,
  rejected ones included, which contribute 0 as well.
\<close>

theorem aggregateContributions_total_is_sum_distinct:
  assumes "distinct (map username accounts)"
    and "''__proto__'' \<notin> set (map username accounts)"
    and "length results = length accounts"
    and "sum_list (map (\<lambda>r. \<bar>contribution r\<bar>) results) \<le> 2 ^ 53"
    and "sum_list (map (\<lambda>a. \<bar>contribution
           (settle (fst (fetchGitHubContributions (username a) (token a) w)))\<bar>) accounts)
         \<le> 2 ^ 53"
  shows "(\<exists>agg. forEach accounts results 0 \<lparr>totalContributions_agg = 0, byAccount = []\<rparr> =
              Inr agg \<and>
            totalContributions_agg agg = sum_list (map snd (byAccount agg)) \<and>
            byAccount agg = zip (map username accounts) (map contribution results)) \<and>
         (\<exists>agg. fst (aggregateContributions accounts w) = Inr agg \<and>
            totalContributions_agg agg = sum_list (map snd (byAccount agg)) \<and>
            byAccount agg =
              map (\<lambda>a. (username a,
                     contribution
                       (settle (fst (fetchGitHubContributions (username a) (token a) w)))))
                accounts)"
proof
  show "\<exists>agg. forEach accounts results 0 \<lparr>totalContributions_agg = 0, byAccount = []\<rparr> =
              Inr agg \<and>
            totalContributions_agg agg = sum_list (map snd (byAccount agg)) \<and>
            byAccount agg = zip (map username accounts) (map contribution results)"
    using assms(3) by (simp add: forEach_distinct_start[OF assms(1,2,3,4)])
next
  show "\<exists>agg. fst (aggregateContributions accounts w) = Inr agg \<and>
            totalContributions_agg agg = sum_list (map snd (byAccount agg)) \<and>
            byAccount agg =
              map (\<lambda>a. (username a,
                     contribution
                       (settle (fst (fetchGitHubContributions (username a) (token a) w)))))
                accounts"
    by (simp add: aggregateContributions_distinct[OF assms(1,2,5)] comp_def)
qed

text \<open>
  The theorem of C1 on two accounts of different names: one fulfilled with a calendar of
  120, one rejected or without a credential.
\<close>

theorem aggregateContributions_total_is_sum_distinct_witness:
  "distinct (map username [octocat_good, hubot_no_token]) \<and>
   ''__proto__'' \<notin> set (map username [octocat_good, hubot_no_token]) \<and>
   length [Fulfilled (Some calendar_120), Rejected NetworkFault] =
     length [octocat_good, hubot_no_token] \<and>
   forEach [octocat_good, hubot_no_token] [Fulfilled (Some calendar_120), Rejected NetworkFault]
     0 \<lparr>totalContributions_agg = 0, byAccount = []\<rparr> =
     Inr \<lparr>totalContributions_agg = 120, byAccount = [(''octocat'', 120), (''hubot'', 0)]\<rparr> \<and>
   fst (aggregateContributions [octocat_good, hubot_no_token] demo_world) =
     Inr \<lparr>totalContributions_agg = 120, byAccount = [(''octocat'', 120), (''hubot'', 0)]\<rparr>"
proof -
  have d: "distinct (map username [octocat_good, hubot_no_token])"
    by (simp add: octocat_good_def hubot_no_token_def)
  have p: "''__proto__'' \<notin> set (map username [octocat_good, hubot_no_token])"
    by (simp add: octocat_good_def hubot_no_token_def)
  have l: "length [Fulfilled (Some calendar_120), Rejected NetworkFault] =
     length [octocat_good, hubot_no_token]"
    by simp
  have s: "sum_list (map (\<lambda>r. \<bar>contribution r\<bar>)
      [Fulfilled (Some calendar_120), Rejected NetworkFault]) \<le> 2 ^ 53"
    by (simp add: calendar_120_def)
  have f: "sum_list (map (\<lambda>a. \<bar>contribution
           (settle (fst (fetchGitHubContributions (username a) (token a) demo_world)))\<bar>)
         [octocat_good, hubot_no_token]) \<le> 2 ^ 53"
    by (simp add: run_fetcher octocat_good_def hubot_no_token_def)
  from aggregateContributions_total_is_sum_distinct[OF d p l s f] d p l
  show ?thesis
    by (simp add: run_fetcher run_aggregator octocat_good_def hubot_no_token_def)
qed

text \<open>
  C1 as stated fails in three ways. Two accounts share a username: the second assignment
  to \<^verbatim>\<open>byAccount[username]\<close> replaces the first, so with one username once with a working
  token and once with a refused one, the combined total is 120 and the mapping holds the
  single value 0. An account is named \<^verbatim>\<open>__proto__\<close>: the total is 120 and the mapping is
  empty. The totals are \<open>2^53\<close> and 1: the combined total is \<open>2^53\<close> and the values
  of the mapping sum to \<open>2^53 + 1\<close>.
\<close>

theorem aggregateContributions_duplicate_username:
  "fst (aggregateContributions [octocat_good, octocat_bad] demo_world) =
     Inr \<lparr>totalContributions_agg = 120, byAccount = [(''octocat'', 0)]\<rparr> \<and>
   (120 :: int) \<noteq> sum_list (map snd [(''octocat'', 0 :: int)]) \<and>
   fst (aggregateContributions [proto_good] demo_world) =
     Inr \<lparr>totalContributions_agg = 120, byAccount = []\<rparr> \<and>
   (120 :: int) \<noteq> sum_list (map snd ([] :: (string \<times> int) list)) \<and>
   fst (aggregateContributions [octocat_good, hubot_good] big_world) =
     Inr \<lparr>totalContributions_agg = 9007199254740992,
          byAccount = [(''octocat'', 9007199254740992), (''hubot'', 1)]\<rparr> \<and>
   (9007199254740992 :: int) \<noteq>
     sum_list (map snd [(''octocat'', 9007199254740992 :: int), (''hubot'', 1)])"
  using aggregateContributions_proto_username aggregateContributions_rounds
  by (simp add: run_fetcher run_aggregator octocat_good_def octocat_bad_def)

text \<open>
  C7. On the empty list of accounts the call returns the combined total 0 and the empty
  mapping, and leaves the world as it was.
\<close>

theorem aggregateContributions_empty:
  "aggregateContributions [] w = (Inr \<lparr>totalContributions_agg = 0, byAccount = []\<rparr>, w)"
  by (simp add: aggregateContributions_def)

text \<open>
  The keys of a mapping with two entries: the second comes first exactly when it is an
  array index and the first is none or a larger one.
\<close>

lemma own_keys_pair:
  "own_keys [(ka, va), (kb, vb)] =
     (if is_array_index kb \<and> (\<not> is_array_index ka \<or> decimal_value kb < decimal_value ka)
      then [kb, ka] else [ka, kb])"
  by (auto simp: own_keys_def Let_def)

text \<open>
  C6, as amended. If the fetch for account \<open>a\<close> yields a calendar whose total is 120,
  the fetch for account \<open>b\<close> yields null, the two usernames differ and neither is
  \<^verbatim>\<open>__proto__\<close>, the call returns the combined total 120 and the mapping with 120 for \<open>a\<close>
  and 0 for \<open>b\<close>. Its keys are listed in input order, except that \<open>b\<close> comes first when
  its username is an array index and that of \<open>a\<close> is none or a larger one.
\<close>

theorem aggregateContributions_two_accounts:
  assumes "fst (fetchGitHubContributions (username a) (token a) w) = Inr (Some calendar)"
    and "totalContributions calendar = 120"
    and "fst (fetchGitHubContributions (username b) (token b) w) = Inr None"
    and "username a \<noteq> username b"
    and "username a \<noteq> ''__proto__''"
    and "username b \<noteq> ''__proto__''"
  shows "fst (aggregateContributions [a, b] w) =
           Inr \<lparr>totalContributions_agg = 120,
                byAccount = [(username a, 120), (username b, 0)]\<rparr> \<and>
         own_keys [(username a, 120 :: int), (username b, 0)] =
           (if is_array_index (username b) \<and>
               (\<not> is_array_index (username a) \<or>
                decimal_value (username b) < decimal_value (username a))
            then [username b, username a] else [username a, username b])"
proof -
  have d: "distinct (map username [a, b])" using assms(4) by simp
  have p: "''__proto__'' \<notin> set (map username [a, b])" using assms(5,6) by auto
  have s: "sum_list (map (\<lambda>a. \<bar>contribution
           (settle (fst (fetchGitHubContributions (username a) (token a) w)))\<bar>) [a, b])
         \<le> 2 ^ 53"
    by (simp add: assms)
  have "fst (aggregateContributions [a, b] w) =
           Inr \<lparr>totalContributions_agg = 120,
                byAccount = [(username a, 120), (username b, 0)]\<rparr>"
    by (simp add: aggregateContributions_distinct[OF d p s] assms)
  then show ?thesis by (simp add: own_keys_pair)
qed

text \<open>
  The theorem of C6 on the accounts \<^verbatim>\<open>octocat\<close> (working token) and \<^verbatim>\<open>hubot\<close> (none),
  and on the accounts \<^verbatim>\<open>42\<close> (working token) and \<^verbatim>\<open>hubot\<close>: both keep the input order.
\<close>

theorem aggregateContributions_two_accounts_witness:
  "fst (aggregateContributions [octocat_good, hubot_no_token] demo_world) =
     Inr \<lparr>totalContributions_agg = 120, byAccount = [(''octocat'', 120), (''hubot'', 0)]\<rparr> \<and>
   own_keys [(''octocat'', 120 :: int), (''hubot'', 0)] = [''octocat'', ''hubot''] \<and>
   fst (aggregateContributions [numeric_good, hubot_no_token] demo_world) =
     Inr \<lparr>totalContributions_agg = 120, byAccount = [(''42'', 120), (''hubot'', 0)]\<rparr> \<and>
   own_keys [(''42'', 120 :: int), (''hubot'', 0)] = [''42'', ''hubot'']"
proof -
  have t: "totalContributions calendar_120 = 120" by (simp add: calendar_120_def)
  have b: "fst (fetchGitHubContributions (username hubot_no_token) (token hubot_no_token)
      demo_world) = Inr None"
    by (simp add: run_fetcher hubot_no_token_def)
  have hubot: "\<not> is_array_index ''hubot''"
    by (simp add: is_array_index_def is_digit_def)
  have a1: "fst (fetchGitHubContributions (username octocat_good) (token octocat_good)
      demo_world) = Inr (Some calendar_120)"
    by (simp add: run_fetcher octocat_good_def)
  have n1: "username octocat_good \<noteq> username hubot_no_token"
    "username octocat_good \<noteq> ''__proto__''" "username hubot_no_token \<noteq> ''__proto__''"
    by (simp_all add: octocat_good_def hubot_no_token_def)
  have a2: "fst (fetchGitHubContributions (username numeric_good) (token numeric_good)
      demo_world) = Inr (Some calendar_120)"
    by (simp add: run_fetcher numeric_good_def)
  have n2: "username numeric_good \<noteq> username hubot_no_token"
    "username numeric_good \<noteq> ''__proto__''"
    by (simp_all add: numeric_good_def hubot_no_token_def)
  from aggregateContributions_two_accounts[OF a1 t b n1]
    aggregateContributions_two_accounts[OF a2 t b n2 n1(3)] hubot
  show ?thesis
    by (simp add: octocat_good_def numeric_good_def hubot_no_token_def)
qed

text \<open>
  C6 as stated fails in three ways, each with a calendar of 120 for the first account and
  null for the second. With the accounts \<^verbatim>\<open>octocat\<close> and \<^verbatim>\<open>42\<close> in this order, the mapping
  lists \<^verbatim>\<open>42\<close> first. With \<^verbatim>\<open>octocat\<close> and \<^verbatim>\<open>__proto__\<close>, the mapping has the one key
  \<^verbatim>\<open>octocat\<close>. With the username \<^verbatim>\<open>octocat\<close> twice, once with a working token and once
  with a refused one, the mapping has the one key \<^verbatim>\<open>octocat\<close>, with the value 0.
\<close>

theorem aggregateContributions_numeric_username_order:
  "fst (fetchGitHubContributions (username octocat_good) (token octocat_good) demo_world) =
     Inr (Some calendar_120) \<and>
   totalContributions calendar_120 = 120 \<and>
   fst (fetchGitHubContributions (username numeric_no_token) (token numeric_no_token)
     demo_world) = Inr None \<and>
   fst (aggregateContributions [octocat_good, numeric_no_token] demo_world) =
     Inr \<lparr>totalContributions_agg = 120, byAccount = [(''octocat'', 120), (''42'', 0)]\<rparr> \<and>
   own_keys [(''octocat'', 120 :: int), (''42'', 0)] = [''42'', ''octocat''] \<and>
   map username [octocat_good, numeric_no_token] = [''octocat'', ''42''] \<and>
   fst (fetchGitHubContributions (username proto_no_token) (token proto_no_token)
     demo_world) = Inr None \<and>
   fst (aggregateContributions [octocat_good, proto_no_token] demo_world) =
     Inr \<lparr>totalContributions_agg = 120, byAccount = [(''octocat'', 120)]\<rparr> \<and>
   fst (fetchGitHubContributions (username octocat_bad) (token octocat_bad) demo_world) =
     Inr None \<and>
   fst (aggregateContributions [octocat_good, octocat_bad] demo_world) =
     Inr \<lparr>totalContributions_agg = 120, byAccount = [(''octocat'', 0)]\<rparr>"
  by (simp add: run_fetcher run_aggregator octocat_good_def numeric_no_token_def
      proto_no_token_def octocat_bad_def own_keys_def is_array_index_def is_digit_def
      decimal_value_def digit_value_def)

end
